theory Spec2Isabelle
  imports Complex_Main
begin

section \<open>The Move component of the slider\<close>

text \<open>
  The Move component converts between slide indices and positions of the list inside the
  track, wraps positions in loop mode, and starts moves through the transition driver.
  The source holds two designs of it: the earlier one (file \<^verbatim>\<open>Move.ts\<close>, with the
  \<^verbatim>\<open>waiting\<close> flag and \<^verbatim>\<open>isBusy\<close>) and the revised one (with \<^verbatim>\<open>canShift\<close> and the
  \<^verbatim>\<open>shifted\<close> notification). Functions that are the same in both are modelled once;
  those that differ carry the suffix \<open>_earlier\<close> or \<open>_revised\<close>.

  Numbers: a TypeScript \<^verbatim>\<open>number\<close> that holds a position or a size is modelled as a
  \<^typ>\<open>real\<close> (exact arithmetic, no rounding and no overflow), an index as an
  \<^typ>\<open>int\<close>. The one place where the source produces a non-finite number from finite
  ones is the division by \<^verbatim>\<open>sliderSize()\<close> in \<^verbatim>\<open>shift\<close>; there the result type is
  \<^typ>\<open>real option\<close> and \<open>None\<close> stands for \<^verbatim>\<open>NaN\<close>.
\<close>

subsection \<open>Options, collaborators and the state\<close>

text \<open>The slider types tested by \<^verbatim>\<open>Splide.is\<close>.\<close>

datatype slider_type = SLIDE | LOOP | FADE

text \<open>\<^verbatim>\<open>options.trimSpace\<close> is a boolean or the string \<^verbatim>\<open>'move'\<close>.\<close>

datatype trim_space = TrimFalse | TrimTrue | TrimMove

text \<open>\<^verbatim>\<open>options.focus\<close> is \<^verbatim>\<open>'center'\<close>, a number, or absent.\<close>

datatype focus_option = FocusCenter | FocusNumber real | FocusUndefined

text \<open>The two values of \<^verbatim>\<open>Splide.state\<close> that the component sets.\<close>

datatype busy_state = IDLE | MOVING

datatype event = EVENT_MOVE | EVENT_MOVED | EVENT_SHIFTED

text \<open>
  Everything the component reads from its options and from the components Layout,
  Direction, Elements, Controller and Slides. None of these is code of the Move
  component; each is a parameter of the model. A geometry query is a fixed value here:
  the layout does not change during one call.
\<close>

record env =
  slider_kind :: slider_type  \<comment> \<open>the type that \<^verbatim>\<open>Splide.is\<close> compares with\<close>
  trimSpace :: trim_space
  focus :: focus_option
  waitForTransition :: bool
  slideSize :: "int \<Rightarrow> bool \<Rightarrow> real"  \<comment> \<open>\<^verbatim>\<open>slideSize( index, withoutGap )\<close>\<close>
  totalSize :: "int \<Rightarrow> real"
  listSize :: real
  sliderSize :: real
  getPadding :: "bool \<Rightarrow> real"
  negating :: bool  \<comment> \<open>whether \<^verbatim>\<open>orient\<close> flips the sign\<close>
  resolve_X :: string  \<comment> \<open>the value of \<^verbatim>\<open>resolve( 'X' )\<close>\<close>
  rect_track :: real  \<comment> \<open>\<^verbatim>\<open>rect( track )[ resolve( 'left' ) ]\<close>\<close>
  getEnd :: int  \<comment> \<open>\<^verbatim>\<open>Components.Controller.getEnd()\<close>\<close>
  slides :: "int list"  \<comment> \<open>the \<^verbatim>\<open>index\<close> of each entry of \<^verbatim>\<open>Components.Slides.get()\<close>, in order\<close>

text \<open>
  The closure that \<^verbatim>\<open>move\<close> hands to \<^verbatim>\<open>Transition.start\<close> runs later, when the driver
  calls it. The model records what the closure captured; a callback is an opaque handle.
\<close>

type_synonym callback = nat

datatype completion =
  Completion (c_looping: bool) (c_index: int) (c_prev: int) (c_dest: int)
    (c_position: real) (c_callback: "callback option")

text \<open>What the component does to the outside, in the order it does it.\<close>

datatype action =
  Emit event "int list"
  | TransitionStart int completion

text \<open>
  The mutable state: the \<^verbatim>\<open>waiting\<close> flag of the earlier design (declared without a
  value, so falsy at first), \<^verbatim>\<open>Splide.state\<close>, the left edge of the list as the browser
  reports it, the two offsets last written to \<^verbatim>\<open>list.style.transform\<close>, and the trace of
  notifications and driver calls. How the browser turns a written transform into the
  reported rectangle is not code of the component and is not modelled: each function reads
  the rectangle of the state it is given.
\<close>

record mover =
  waiting :: bool
  busy :: busy_state
  rect_list :: real  \<comment> \<open>\<^verbatim>\<open>rect( list )[ resolve( 'left' ) ]\<close>\<close>
  transform :: "(real option \<times> real option) option"
  trace :: "action list"

subsection \<open>Helpers imported by the component\<close>

text \<open>
  Modelled from the spec: \<^verbatim>\<open>Direction.orient\<close> is imported from the Direction component,
  which is not among the source files. The spec calls its result the "sign-or-axis-adjusted
  value" and says the comparisons made through it are "semantic, not raw sign": it either
  keeps or flips the sign of its argument, depending on the configured direction.
\<close>

definition orient :: "env \<Rightarrow> real \<Rightarrow> real" where
  "orient E v = (if negating E then - v else v)"

text \<open>
  Modelled from the spec: \<^verbatim>\<open>clamp\<close> is imported from the utilities, which are not among
  the source files. The spec says it clamps the position "into" the interval given by the
  two bounds; the bounds are taken in either order, since the second one is an oriented
  value and may be negative.
\<close>

definition clamp :: "real \<Rightarrow> real \<Rightarrow> real \<Rightarrow> real" where
  "clamp n x y = min (max (min x y) n) (max x y)"

text \<open>
  Modelled from the spec: \<^verbatim>\<open>abs\<close>, \<^verbatim>\<open>ceil\<close> and \<^verbatim>\<open>sign\<close> are imported from the same
  utilities. The spec writes them as the absolute value, the ceiling and the sign of a
  number; they are \<^const>\<open>abs\<close>, \<^const>\<open>ceiling\<close> and \<^const>\<open>sgn\<close> on the reals.
\<close>

text \<open>\<^verbatim>\<open>Splide.is( type )\<close>.\<close>

definition is_type :: "env \<Rightarrow> slider_type \<Rightarrow> bool" where
  "is_type E t = (slider_kind E = t)"

text \<open>The truthiness of \<^verbatim>\<open>options.trimSpace\<close>: \<^verbatim>\<open>true\<close> and \<^verbatim>\<open>'move'\<close> are truthy.\<close>

fun truthy :: "trim_space \<Rightarrow> bool" where
  "truthy TrimFalse = False"
| "truthy TrimTrue = True"
| "truthy TrimMove = True"

subsection \<open>Positions and indices (the same in both designs)\<close>

text \<open>
  \<^verbatim>\<open>offset\<close>: \<^verbatim>\<open>focus === 'center' ? ( listSize() - slideSize( index, true ) ) / 2
  : +focus * slideSize( index ) || 0\<close>. An absent focus gives \<^verbatim>\<open>NaN || 0\<close>, that is 0; a
  product that is 0 gives \<^verbatim>\<open>0 || 0\<close>.
\<close>

definition offset :: "env \<Rightarrow> int \<Rightarrow> real" where
  "offset E index =
     (case focus E of
        FocusCenter \<Rightarrow> (listSize E - slideSize E index True) / 2
      | FocusNumber f \<Rightarrow> f * slideSize E index False
      | FocusUndefined \<Rightarrow> 0)"

definition trim :: "env \<Rightarrow> real \<Rightarrow> real" where
  "trim E position =
     (if truthy (trimSpace E) \<and> is_type E SLIDE
      then clamp position 0 (orient E (sliderSize E - listSize E))
      else position)"

definition toPosition :: "env \<Rightarrow> int \<Rightarrow> bool \<Rightarrow> real" where
  "toPosition E index trimming =
     (let position = orient E (totalSize E (index - 1) - offset E index)
      in if trimming then trim E position else position)"

definition getPosition :: "env \<Rightarrow> mover \<Rightarrow> real" where
  "getPosition E S = rect_list S - rect_track E + orient E (getPadding E False)"

definition getLimit :: "env \<Rightarrow> bool \<Rightarrow> real" where
  "getLimit E mx = toPosition E (if mx then getEnd E else 0) (truthy (trimSpace E))"

text \<open>
  \<^verbatim>\<open>exceededLimit( max?, position? )\<close>: both arguments are optional; an omitted position
  is the current one.
\<close>

definition exceededLimit :: "env \<Rightarrow> mover \<Rightarrow> bool option \<Rightarrow> real option \<Rightarrow> bool" where
  "exceededLimit E S mx position_opt =
     (let position = (case position_opt of None \<Rightarrow> getPosition E S | Some p \<Rightarrow> p);
          exceededMin = (mx \<noteq> Some True \<and> orient E position < orient E (getLimit E False));
          exceededMax = (mx \<noteq> Some False \<and> orient E position > orient E (getLimit E True))
      in exceededMin \<or> exceededMax)"

text \<open>
  The loop of \<^verbatim>\<open>toIndex\<close> over the registry, with its two variables \<^verbatim>\<open>index\<close> and
  \<^verbatim>\<open>minDistance\<close>; \<open>None\<close> is the initial \<^verbatim>\<open>Infinity\<close>. The \<^verbatim>\<open>break\<close> returns the index
  held at that moment.
\<close>

fun toIndex_loop :: "env \<Rightarrow> real \<Rightarrow> int list \<Rightarrow> int \<Rightarrow> real option \<Rightarrow> int" where
  "toIndex_loop E position [] index minDistance = index"
| "toIndex_loop E position (slideIndex # rest) index minDistance =
     (let distance = \<bar>toPosition E slideIndex True - position\<bar>
      in if (case minDistance of None \<Rightarrow> True | Some m \<Rightarrow> distance \<le> m)
         then toIndex_loop E position rest slideIndex (Some distance)
         else index)"

definition toIndex :: "env \<Rightarrow> real \<Rightarrow> int" where
  "toIndex E position = toIndex_loop E position (slides E) 0 None"

subsection \<open>The loop engine\<close>

text \<open>
  Earlier design: \<^verbatim>\<open>position -= sign( excess ) * size * ceil( abs( excess ) / size )\<close>.
  With \<^verbatim>\<open>size\<close> 0 the quotient is \<^verbatim>\<open>Infinity\<close> or \<^verbatim>\<open>NaN\<close> and the product is \<^verbatim>\<open>NaN\<close>.
\<close>

definition shift_earlier :: "env \<Rightarrow> real \<Rightarrow> bool \<Rightarrow> real option" where
  "shift_earlier E position backwards =
     (let excess = position - getLimit E backwards;
          size = sliderSize E
      in if size = 0 then None
         else Some (position - sgn excess * size * of_int \<lceil>\<bar>excess\<bar> / size\<rceil>))"

text \<open>
  Revised design:
  \<^verbatim>\<open>position -= orient( size * ( ceil( abs( excess ) / size ) || 1 ) ) * ( backwards ? 1 : -1 )\<close>.
  A ceiling of 0 is falsy and is replaced by 1. With \<^verbatim>\<open>size\<close> 0 and \<^verbatim>\<open>excess\<close> 0 the
  quotient is \<^verbatim>\<open>NaN\<close>, replaced by 1, and the position is returned as it is; with
  \<^verbatim>\<open>size\<close> 0 and another \<^verbatim>\<open>excess\<close> the product \<^verbatim>\<open>0 * Infinity\<close> is \<^verbatim>\<open>NaN\<close>.
\<close>

definition shift_revised :: "env \<Rightarrow> real \<Rightarrow> bool \<Rightarrow> real option" where
  "shift_revised E position backwards =
     (let excess = position - getLimit E backwards;
          size = sliderSize E
      in if size = 0 then (if excess = 0 then Some position else None)
         else
           let c = \<lceil>\<bar>excess\<bar> / size\<rceil>;
               k = (if c = 0 then 1 else c)
           in Some (position - orient E (size * of_int k) * (if backwards then 1 else - 1)))"

definition isBusy :: "mover \<Rightarrow> bool" where
  "isBusy S = waiting S"

definition loop_earlier :: "env \<Rightarrow> mover \<Rightarrow> real \<Rightarrow> real option" where
  "loop_earlier E S position =
     (if \<not> waiting S \<and> is_type E LOOP then
        let diff = orient E (position - getPosition E S);
            exceededMin = (exceededLimit E S (Some False) (Some position) \<and> diff < 0);
            exceededMax = (exceededLimit E S (Some True) (Some position) \<and> diff > 0)
        in if exceededMin \<or> exceededMax then shift_earlier E position exceededMax
           else Some position
      else Some position)"

definition loop_revised :: "env \<Rightarrow> mover \<Rightarrow> real \<Rightarrow> real option" where
  "loop_revised E S position =
     (if is_type E LOOP then
        let diff = orient E (position - getPosition E S);
            exceededMin = (exceededLimit E S (Some False) (Some position) \<and> diff < 0);
            exceededMax = (exceededLimit E S (Some True) (Some position) \<and> diff > 0)
        in if exceededMin \<or> exceededMax then shift_revised E position exceededMax
           else Some position
      else Some position)"

subsection \<open>Writing a position and starting a move\<close>

text \<open>
  \<^verbatim>\<open>emit\<close> appends a notification to the trace.
\<close>

definition emit :: "event \<Rightarrow> int list \<Rightarrow> mover \<Rightarrow> mover" where
  "emit ev args S = S\<lparr>trace := trace S @ [Emit ev args]\<rparr>"

text \<open>
  Revised \<^verbatim>\<open>translate\<close>. The style written is
  \<^verbatim>\<open>translate3d(${ dir === 'Y' ? '0' : destination }px, ${ dir === 'X' ? '0' : destination }px, 0)\<close>;
  the model keeps its two offsets. \<^verbatim>\<open>preventLoop\<close> is optional and falsy when omitted.
\<close>

definition translate_revised :: "env \<Rightarrow> mover \<Rightarrow> real \<Rightarrow> bool \<Rightarrow> mover" where
  "translate_revised E S position preventLoop =
     (if \<not> is_type E FADE then
        let translateDirection = resolve_X E;
            destination = (if preventLoop then Some position else loop_revised E S position);
            S1 = S\<lparr>transform :=
                    Some (if translateDirection = ''Y'' then Some 0 else destination,
                          if translateDirection = ''X'' then Some 0 else destination)\<rparr>
        in if Some position \<noteq> destination then emit EVENT_SHIFTED [] S1 else S1
      else S)"

text \<open>
  Earlier \<^verbatim>\<open>move\<close>. The closure given to \<^verbatim>\<open>Transition.start\<close> is recorded with the
  variables it captures; it is run by the driver, not by \<^verbatim>\<open>move\<close>.
\<close>

definition move_earlier :: "env \<Rightarrow> mover \<Rightarrow> int \<Rightarrow> int \<Rightarrow> int \<Rightarrow> callback option \<Rightarrow> mover" where
  "move_earlier E S dest index prev cb =
     (if \<not> isBusy S then
        let position = getPosition E S;
            looping = (dest \<noteq> index);
            S1 = S\<lparr>waiting := looping \<or> waitForTransition E\<rparr>;
            S2 = S1\<lparr>busy := MOVING\<rparr>;
            S3 = emit EVENT_MOVE [index, prev, dest] S2
        in S3\<lparr>trace := trace S3 @
                 [TransitionStart dest (Completion looping index prev dest position cb)]\<rparr>
      else S)"

subsection \<open>Example configurations\<close>

text \<open>
  Five slides of width 100 without gap, indices 0 to 4, in a track that shows three of
  them. \<^verbatim>\<open>totalSize\<close> of an index without a slide is 0.
\<close>

definition five_slides :: env where
  "five_slides =
     \<lparr> slider_kind = SLIDE, trimSpace = TrimFalse, focus = FocusNumber 0,
       waitForTransition = False,
       slideSize = (\<lambda>i g. 100),
       totalSize = (\<lambda>i. if 0 \<le> i \<and> i \<le> 4 then 100 * (of_int i + 1) else 0),
       listSize = 300, sliderSize = 500,
       getPadding = (\<lambda>b. 0),
       negating = False, resolve_X = ''X'', rect_track = 0,
       getEnd = 4, slides = [0, 1, 2, 3, 4] \<rparr>"

text \<open>The same slider with edge trimming enabled.\<close>

definition trimmed_slides :: env where
  "trimmed_slides = five_slides\<lparr>trimSpace := TrimTrue\<rparr>"

text \<open>The same slider under an orientation that flips the sign.\<close>

definition flipped_slides :: env where
  "flipped_slides = five_slides\<lparr>negating := True\<rparr>"

text \<open>The same slider in loop mode.\<close>

definition looping_slides :: env where
  "looping_slides = five_slides\<lparr>slider_kind := LOOP\<rparr>"

text \<open>A slider in loop mode without any slide: every size is 0, and so is the cycle length.\<close>

definition no_slides :: env where
  "no_slides =
     \<lparr> slider_kind = LOOP, trimSpace = TrimFalse, focus = FocusNumber 0,
       waitForTransition = False,
       slideSize = (\<lambda>i g. 0),
       totalSize = (\<lambda>i. 0),
       listSize = 300, sliderSize = 0,
       getPadding = (\<lambda>b. 0),
       negating = False, resolve_X = ''X'', rect_track = 0,
       getEnd = 0, slides = [] \<rparr>"

text \<open>The component before its first move: idle, nothing written, list at the track's edge.\<close>

definition initial :: mover where
  "initial = \<lparr> waiting = False, busy = IDLE, rect_list = 0, transform = None, trace = [] \<rparr>"

section \<open>Properties\<close>

subsection \<open>Auxiliary facts\<close>

lemma clamp_mono: "a \<le> b \<Longrightarrow> clamp a x y \<le> clamp b x y"
  by (auto simp add: clamp_def min_def max_def)

lemma clamp_between: "min x y \<le> clamp n x y \<and> clamp n x y \<le> max x y"
  by (auto simp add: clamp_def min_def max_def)

lemma trim_mono: "a \<le> b \<Longrightarrow> trim E a \<le> trim E b"
  by (simp add: trim_def clamp_mono)

lemma toPosition_trimmed: "toPosition E j True = trim E (toPosition E j False)"
  by (simp add: toPosition_def Let_def)

lemma offset_uniform:
  assumes "\<forall>g. slideSize E a g = w g" and "\<forall>g. slideSize E b g = w g"
  shows "offset E a = offset E b"
  using assms by (simp add: offset_def split: focus_option.splits)

text \<open>
  With cumulative sizes that grow by a fixed positive step, the untrimmed positions are
  ordered along the indices, upwards or downwards according to the orientation; the
  clamp keeps the order, without the strictness.
\<close>

lemma raw_position_ordered:
  assumes "totalSize E (a - 1) = base + of_int a * step"
    and "totalSize E (b - 1) = base + of_int b * step"
    and "offset E a = offset E b" and "0 < step" and "a \<le> b"
  shows "if negating E then toPosition E b False \<le> toPosition E a False
         else toPosition E a False \<le> toPosition E b False"
proof -
  from \<open>a \<le> b\<close> have "(of_int a :: real) \<le> of_int b" by simp
  with \<open>0 < step\<close> have "of_int a * step \<le> of_int b * step"
    by (simp add: mult_right_mono)
  with assms(1-3) show ?thesis
    by (simp add: toPosition_def orient_def)
qed

lemma trimmed_position_ordered:
  assumes "totalSize E (a - 1) = base + of_int a * step"
    and "totalSize E (b - 1) = base + of_int b * step"
    and "offset E a = offset E b" and "0 < step" and "a \<le> b"
  shows "if negating E then toPosition E b True \<le> toPosition E a True
         else toPosition E a True \<le> toPosition E b True"
  using raw_position_ordered [OF assms]
  by (simp add: toPosition_trimmed trim_mono split: if_splits)

text \<open>One turn of the loop of \<^verbatim>\<open>toIndex\<close>: the candidate is taken, or the loop breaks.\<close>

lemma toIndex_loop_accept:
  "(case md of None \<Rightarrow> True | Some m \<Rightarrow> \<bar>toPosition E x True - p\<bar> \<le> m) \<Longrightarrow>
   toIndex_loop E p (x # rest) idx md =
     toIndex_loop E p rest x (Some \<bar>toPosition E x True - p\<bar>)"
  by (simp add: Let_def)

lemma toIndex_loop_reject:
  "\<not> \<bar>toPosition E x True - p\<bar> \<le> m \<Longrightarrow> toIndex_loop E p (x # rest) idx (Some m) = idx"
  by (simp add: Let_def)

text \<open>
  The loop reaches the slide whose position is asked for, when the distances do not grow
  on the way to it and the slides after it lie elsewhere.
\<close>

lemma toIndex_loop_finds:
  assumes "sorted_wrt (<) (x # rest)" and "i \<in> set (x # rest)"
    and "\<forall>a\<in>set (x # rest). \<forall>b\<in>set (x # rest). a < b \<and> b \<le> i \<longrightarrow>
           \<bar>toPosition E b True - p\<bar> \<le> \<bar>toPosition E a True - p\<bar>"
    and "\<forall>j\<in>set (x # rest). i < j \<longrightarrow> toPosition E j True \<noteq> p"
    and "toPosition E i True = p"
    and "case md of None \<Rightarrow> True | Some m \<Rightarrow> \<bar>toPosition E x True - p\<bar> \<le> m"
  shows "toIndex_loop E p (x # rest) idx md = i"
  using assms
proof (induction rest arbitrary: x idx md)
  case Nil
  then have "x = i" by simp
  moreover have "toIndex_loop E p [x] idx md =
      toIndex_loop E p [] x (Some \<bar>toPosition E x True - p\<bar>)"
    using Nil.prems(6) by (rule toIndex_loop_accept)
  ultimately show ?case by simp
next
  case (Cons y ys)
  have step: "toIndex_loop E p (x # y # ys) idx md =
      toIndex_loop E p (y # ys) x (Some \<bar>toPosition E x True - p\<bar>)"
    using Cons.prems(6) by (rule toIndex_loop_accept)
  show ?case
  proof (cases "x = i")
    case True
    from Cons.prems(1) True have "i < y" by simp
    with Cons.prems(4) have "toPosition E y True \<noteq> p" by simp
    moreover from True Cons.prems(5) have "\<bar>toPosition E x True - p\<bar> = 0" by simp
    ultimately have "\<not> \<bar>toPosition E y True - p\<bar> \<le> \<bar>toPosition E x True - p\<bar>" by simp
    then have "toIndex_loop E p (y # ys) x (Some \<bar>toPosition E x True - p\<bar>) = x"
      by (rule toIndex_loop_reject)
    with step True show ?thesis by simp
  next
    case False
    with Cons.prems(2) have mem: "i \<in> set (y # ys)" by simp
    from Cons.prems(1) have srt: "sorted_wrt (<) (y # ys)" and xy: "x < y" by simp_all
    from srt mem have yi: "y \<le> i" by auto
    from Cons.prems(3) xy yi
    have le: "\<bar>toPosition E y True - p\<bar> \<le> \<bar>toPosition E x True - p\<bar>" by simp
    have "toIndex_loop E p (y # ys) x (Some \<bar>toPosition E x True - p\<bar>) = i"
    proof (rule Cons.IH [OF srt mem _ _ Cons.prems(5)])
      show "\<forall>a\<in>set (y # ys). \<forall>b\<in>set (y # ys). a < b \<and> b \<le> i \<longrightarrow>
           \<bar>toPosition E b True - p\<bar> \<le> \<bar>toPosition E a True - p\<bar>"
        using Cons.prems(3) by simp
      show "\<forall>j\<in>set (y # ys). i < j \<longrightarrow> toPosition E j True \<noteq> p"
        using Cons.prems(4) by simp
      show "case Some \<bar>toPosition E x True - p\<bar> of None \<Rightarrow> True
            | Some m \<Rightarrow> \<bar>toPosition E y True - p\<bar> \<le> m"
        using le by simp
    qed
    with step show ?thesis by simp
  qed
qed

text \<open>
  Where the loop stops: at the last entry, or at the first entry whose successor is
  strictly farther from the position; up to there the distances never grow.
\<close>

lemma toIndex_loop_stops_at:
  assumes "case md of None \<Rightarrow> True | Some m \<Rightarrow> \<bar>toPosition E x True - p\<bar> \<le> m"
  shows "\<exists>k<length (x # rest).
      toIndex_loop E p (x # rest) idx md = (x # rest) ! k
    \<and> (\<forall>j<k. \<bar>toPosition E ((x # rest) ! Suc j) True - p\<bar>
              \<le> \<bar>toPosition E ((x # rest) ! j) True - p\<bar>)
    \<and> (Suc k < length (x # rest) \<longrightarrow>
         \<bar>toPosition E ((x # rest) ! k) True - p\<bar>
           < \<bar>toPosition E ((x # rest) ! Suc k) True - p\<bar>)"
  using assms
proof (induction rest arbitrary: x idx md)
  case Nil
  have "toIndex_loop E p [x] idx md = x"
    using toIndex_loop_accept [OF Nil.prems, of "[]" idx] by simp
  then show ?case by simp
next
  case (Cons y ys)
  let ?d = "\<lambda>j. \<bar>toPosition E j True - p\<bar>"
  have step: "toIndex_loop E p (x # y # ys) idx md = toIndex_loop E p (y # ys) x (Some (?d x))"
    using Cons.prems by (rule toIndex_loop_accept)
  show ?case
  proof (cases "?d y \<le> ?d x")
    case True
    then have "case Some (?d x) of None \<Rightarrow> True | Some m \<Rightarrow> ?d y \<le> m" by simp
    from Cons.IH [OF this, of x] obtain k where k: "k < length (y # ys)"
      and res: "toIndex_loop E p (y # ys) x (Some (?d x)) = (y # ys) ! k"
      and chain: "\<forall>j<k. ?d ((y # ys) ! Suc j) \<le> ?d ((y # ys) ! j)"
      and stop: "Suc k < length (y # ys) \<longrightarrow> ?d ((y # ys) ! k) < ?d ((y # ys) ! Suc k)"
      by blast
    have "\<forall>j<Suc k. ?d ((x # y # ys) ! Suc j) \<le> ?d ((x # y # ys) ! j)"
    proof (intro allI impI)
      fix j assume "j < Suc k"
      show "?d ((x # y # ys) ! Suc j) \<le> ?d ((x # y # ys) ! j)"
      proof (cases j)
        case 0
        with True show ?thesis by simp
      next
        case (Suc j')
        with \<open>j < Suc k\<close> chain show ?thesis by simp
      qed
    qed
    with k res stop step show ?thesis
      by (intro exI [of _ "Suc k"]) simp
  next
    case False
    then have "toIndex_loop E p (y # ys) x (Some (?d x)) = x"
      by (rule toIndex_loop_reject)
    with step False show ?thesis
      by (intro exI [of _ 0]) simp
  qed
qed

lemma chain_minimum:
  fixes d :: "nat \<Rightarrow> real"
  assumes "\<forall>j<k. d (Suc j) \<le> d j" and "j \<le> k"
  shows "d k \<le> d j"
  using assms
proof (induction k)
  case 0
  then show ?case by simp
next
  case (Suc k)
  show ?case
  proof (cases "j = Suc k")
    case True
    then show ?thesis by simp
  next
    case False
    with Suc.prems have "j \<le> k" by simp
    with Suc have "d k \<le> d j" by simp
    moreover from Suc.prems have "d (Suc k) \<le> d k" by simp
    ultimately show ?thesis by simp
  qed
qed



text \<open>
  With a cycle length of zero and a position on the limit, the revised \<^verbatim>\<open>shift\<close> returns
  the position as it is: positive sizes are a standing assumption of the component.
\<close>

lemma shift_revised_zero_size:
  "sliderSize E = 0 \<Longrightarrow> p = getLimit E b \<Longrightarrow> shift_revised E p b = Some p"
  by (simp add: shift_revised_def)


lemmas five_slides_simps =
  five_slides_def trimmed_slides_def flipped_slides_def looping_slides_def no_slides_def
  initial_def

lemmas position_simps =
  toIndex_def toPosition_def getLimit_def getPosition_def offset_def trim_def clamp_def
  orient_def is_type_def Let_def

subsection \<open>Index to position and back\<close>

text \<open>
  C1, as amended. For a slide index \<open>i\<close> of the registry (listed in ascending order),
  with uniform slide sizes (every slide has the same size, and the cumulative size grows
  by the same positive step from one index to the next), if the trimming clamp does not
  alter \<^verbatim>\<open>toPosition(i, true)\<close> and no later slide of the registry has the trimmed position
  of \<open>i\<close>, then \<^verbatim>\<open>toIndex(toPosition(i, true))\<close> is \<open>i\<close>.
\<close>

theorem toIndex_toPosition_roundtrip:
  assumes asc: "sorted_wrt (<) (slides E)"
    and mem: "i \<in> set (slides E)"
    and step: "0 < step"
    and total: "\<forall>j\<in>set (slides E). totalSize E (j - 1) = base + of_int j * step"
    and size: "\<forall>j\<in>set (slides E). \<forall>g. slideSize E j g = w g"
    and untrimmed: "toPosition E i True = toPosition E i False"
    and later: "\<forall>j\<in>set (slides E). i < j \<longrightarrow> toPosition E j True \<noteq> toPosition E i True"
  shows "toIndex E (toPosition E i True) = i"
proof -
  from mem obtain x rest where xs: "slides E = x # rest"
    by (cases "slides E") auto
  have ordered: "if negating E then toPosition E b True \<le> toPosition E a True
         else toPosition E a True \<le> toPosition E b True"
    if "a \<in> set (slides E)" "b \<in> set (slides E)" "a \<le> b" for a b
  proof (rule trimmed_position_ordered [where base = base and step = step])
    show "totalSize E (a - 1) = base + of_int a * step" using total that(1) by simp
    show "totalSize E (b - 1) = base + of_int b * step" using total that(2) by simp
    show "offset E a = offset E b"
      using size that(1,2) by (intro offset_uniform [where w = w]) simp_all
  qed (use step that(3) in simp_all)
  have between: "\<forall>a\<in>set (slides E). \<forall>b\<in>set (slides E). a < b \<and> b \<le> i \<longrightarrow>
      \<bar>toPosition E b True - toPosition E i True\<bar>
        \<le> \<bar>toPosition E a True - toPosition E i True\<bar>"
  proof (intro ballI impI)
    fix a b assume a: "a \<in> set (slides E)" and b: "b \<in> set (slides E)"
      and ab: "a < b \<and> b \<le> i"
    from ordered [OF a b] ordered [OF b mem] ab
    show "\<bar>toPosition E b True - toPosition E i True\<bar>
        \<le> \<bar>toPosition E a True - toPosition E i True\<bar>"
      by (simp split: if_splits)
  qed
  have "toIndex_loop E (toPosition E i True) (x # rest) 0 None = i"
    by (rule toIndex_loop_finds) (use asc mem between later xs in simp_all)
  with xs show ?thesis by (simp add: toIndex_def)
qed

text \<open>
  C1, witness: slide 1 of the five trimmed slides. Its position 100 is inside the
  interval from 0 to 200 and no other slide has it.
\<close>

theorem toIndex_toPosition_roundtrip_witness:
  "toPosition trimmed_slides 1 True = toPosition trimmed_slides 1 False
   \<and> toIndex trimmed_slides (toPosition trimmed_slides 1 True) = 1"
proof
  show untrimmed: "toPosition trimmed_slides 1 True = toPosition trimmed_slides 1 False"
    by (simp add: five_slides_simps position_simps)
  show "toIndex trimmed_slides (toPosition trimmed_slides 1 True) = 1"
  proof (rule toIndex_toPosition_roundtrip
      [where step = 100 and base = 0 and w = "\<lambda>g. 100", OF _ _ _ _ _ untrimmed])
    show "sorted_wrt (<) (slides trimmed_slides)"
      by (simp add: five_slides_simps)
    show "1 \<in> set (slides trimmed_slides)"
      by (simp add: five_slides_simps)
    show "(0::real) < 100" by simp
    show "\<forall>j\<in>set (slides trimmed_slides).
        totalSize trimmed_slides (j - 1) = 0 + of_int j * 100"
      by (simp add: five_slides_simps)
    show "\<forall>j\<in>set (slides trimmed_slides). \<forall>g. slideSize trimmed_slides j g = 100"
      by (simp add: five_slides_simps)
    show "\<forall>j\<in>set (slides trimmed_slides).
        1 < j \<longrightarrow> toPosition trimmed_slides j True \<noteq> toPosition trimmed_slides 1 True"
      by (simp add: five_slides_simps position_simps)
  qed
qed

text \<open>
  C1, counterexample to the claim as stated. Five slides of width 100 in a track of
  width 300, trimming enabled: the clamp interval ends at 200. Slide 2 is at 200 and the
  clamp does not alter it, but slides 3 and 4 are clamped onto 200 as well; the loop of
  \<^verbatim>\<open>toIndex\<close> passes over entries at the same distance and returns 4. The same happens
  under the orientation that flips the sign.
\<close>

theorem toIndex_toPosition_roundtrip_counterexample:
  "toPosition trimmed_slides 2 True = toPosition trimmed_slides 2 False
   \<and> toIndex trimmed_slides (toPosition trimmed_slides 2 True) = 4
   \<and> toPosition (trimmed_slides\<lparr>negating := True\<rparr>) 2 True
       = toPosition (trimmed_slides\<lparr>negating := True\<rparr>) 2 False
   \<and> toIndex (trimmed_slides\<lparr>negating := True\<rparr>)
       (toPosition (trimmed_slides\<lparr>negating := True\<rparr>) 2 True) = 4"
  by (simp add: five_slides_simps position_simps)

subsection \<open>The scan of \<^verbatim>\<open>toIndex\<close>\<close>

text \<open>
  C2, as amended. For every query position, \<^verbatim>\<open>toIndex\<close> scans the registry in order for
  as long as the distance between the candidate's trimmed position and the query does not
  grow, and returns the candidate at which it stops: the last entry of the registry, or
  the first entry whose successor is strictly farther away. The returned candidate has
  the least distance among those scanned. A candidate at the same distance as its
  predecessor replaces it: the scan never stops at an entry whose successor is equally
  near, so of two neighbouring candidates at the same least distance the later one is
  returned.
\<close>

theorem toIndex_scan:
  assumes "slides E \<noteq> []"
  shows "\<exists>k<length (slides E).
      toIndex E p = slides E ! k
    \<and> (\<forall>j<k. \<bar>toPosition E (slides E ! Suc j) True - p\<bar>
              \<le> \<bar>toPosition E (slides E ! j) True - p\<bar>)
    \<and> (\<forall>j\<le>k. \<bar>toPosition E (slides E ! k) True - p\<bar>
              \<le> \<bar>toPosition E (slides E ! j) True - p\<bar>)
    \<and> (Suc k < length (slides E) \<longrightarrow>
         \<bar>toPosition E (slides E ! k) True - p\<bar>
           < \<bar>toPosition E (slides E ! Suc k) True - p\<bar>)"
proof -
  from assms obtain x rest where xs: "slides E = x # rest"
    by (cases "slides E") auto
  have "case None of None \<Rightarrow> True | Some m \<Rightarrow> \<bar>toPosition E x True - p\<bar> \<le> m" by simp
  from toIndex_loop_stops_at [OF this, of rest 0]
  obtain k where k: "k < length (x # rest)"
    and res: "toIndex_loop E p (x # rest) 0 None = (x # rest) ! k"
    and chain: "\<forall>j<k. \<bar>toPosition E ((x # rest) ! Suc j) True - p\<bar>
                    \<le> \<bar>toPosition E ((x # rest) ! j) True - p\<bar>"
    and stop: "Suc k < length (x # rest) \<longrightarrow>
         \<bar>toPosition E ((x # rest) ! k) True - p\<bar>
           < \<bar>toPosition E ((x # rest) ! Suc k) True - p\<bar>"
    by blast
  have "\<forall>j\<le>k. \<bar>toPosition E ((x # rest) ! k) True - p\<bar>
            \<le> \<bar>toPosition E ((x # rest) ! j) True - p\<bar>"
    using chain_minimum [of k "\<lambda>j. \<bar>toPosition E ((x # rest) ! j) True - p\<bar>"] chain
    by blast
  with k res chain stop show ?thesis
    unfolding toIndex_def xs by blast
qed

text \<open>C2, witness: the five slides and the position 50.\<close>

theorem toIndex_scan_witness:
  "slides five_slides \<noteq> []
   \<and> (\<exists>k<length (slides five_slides).
        toIndex five_slides 50 = slides five_slides ! k
      \<and> (\<forall>j\<le>k. \<bar>toPosition five_slides (slides five_slides ! k) True - 50\<bar>
                \<le> \<bar>toPosition five_slides (slides five_slides ! j) True - 50\<bar>))"
proof -
  have h: "slides five_slides \<noteq> []" by (simp add: five_slides_def)
  from toIndex_scan [OF h, of 50] h show ?thesis by blast
qed

text \<open>
  C2, counterexample to the claim as stated. The position 50 is at distance 50 from
  slide 0 (at 0) and from slide 1 (at 100), and every other slide is farther away. The
  claim returns the lower index 0; \<^verbatim>\<open>toIndex\<close> returns 1.
\<close>

theorem toIndex_tie_counterexample:
  "\<bar>toPosition five_slides 0 True - 50\<bar> = 50
   \<and> \<bar>toPosition five_slides 1 True - 50\<bar> = 50
   \<and> \<bar>toPosition five_slides 2 True - 50\<bar> = 150
   \<and> toIndex five_slides 50 = 1"
  by (simp add: five_slides_simps position_simps)

subsection \<open>Shifting by cycle lengths\<close>




text \<open>
  C5, as amended. In the revised design, with a positive cycle length, \<^verbatim>\<open>shift\<close> returns
  \<open>position - orient (size * max 1 \<lceil>\<bar>excess\<bar> / size\<rceil>) * (if backwards then 1 else - 1)\<close>,
  where \<open>excess = position - getLimit backwards\<close>; the result is never the position
  itself and lies at least one cycle length away from it.
\<close>

theorem shift_revised_full_cycle:
  assumes "0 < sliderSize E"
  shows "\<exists>q. shift_revised E p backwards = Some q
     \<and> q = p - orient E
                 (sliderSize E * of_int (max 1 \<lceil>\<bar>p - getLimit E backwards\<bar> / sliderSize E\<rceil>))
               * (if backwards then 1 else - 1)
     \<and> q \<noteq> p
     \<and> sliderSize E \<le> \<bar>q - p\<bar>"
proof -
  define c where "c = \<lceil>\<bar>p - getLimit E backwards\<bar> / sliderSize E\<rceil>"
  define k where "k = (if c = 0 then 1 else c)"
  define q where "q = p - orient E (sliderSize E * of_int k) * (if backwards then 1 else - 1)"
  from assms have "0 \<le> \<bar>p - getLimit E backwards\<bar> / sliderSize E" by simp
  then have "0 \<le> c" unfolding c_def by (simp add: ceiling_le_iff le_ceiling_iff)
  then have k: "k = max 1 c" and k1: "1 \<le> k" by (auto simp add: k_def)
  from assms have res: "shift_revised E p backwards = Some q"
    by (simp add: shift_revised_def Let_def c_def k_def q_def)
  have dist: "\<bar>q - p\<bar> = sliderSize E * of_int k"
    using assms k1 by (simp add: q_def orient_def abs_mult)
  from k1 have "(1::real) \<le> of_int k" by simp
  with assms have "sliderSize E * 1 \<le> sliderSize E * of_int k"
    by (intro mult_left_mono) simp_all
  with dist have far: "sliderSize E \<le> \<bar>q - p\<bar>" by simp
  with assms have "q \<noteq> p" by auto
  with res far show ?thesis
    unfolding q_def k c_def by blast
qed

text \<open>
  C5, witness: the position 400 is the maximum limit of the five slides, so the excess
  is zero; the backwards shift still moves it by the cycle length 500.
\<close>

theorem shift_revised_full_cycle_witness:
  "0 < sliderSize five_slides
   \<and> getLimit five_slides True = 400
   \<and> shift_revised five_slides 400 True = Some (- 100)"
proof -
  have h: "0 < sliderSize five_slides" by (simp add: five_slides_def)
  from shift_revised_full_cycle [OF h, of 400 True] h show ?thesis
    by (simp add: five_slides_simps position_simps)
qed

text \<open>
  C5, counterexample to the claim as stated, which speaks of every position without a
  condition on the cycle length. With the cycle length 0 and a position on the limit the
  quotient \<^verbatim>\<open>0 / 0\<close> is \<^verbatim>\<open>NaN\<close>, \<^verbatim>\<open>NaN || 1\<close> is 1, the product with the size is 0,
  and the position is returned as it is: for the slider without slides at its limit 0,
  and for the five slides with the cycle length set to 0 at their limit 400.
\<close>

theorem shift_revised_full_cycle_counterexample:
  "sliderSize no_slides = 0
   \<and> getLimit no_slides True = 0
   \<and> shift_revised no_slides 0 True = Some 0
   \<and> getLimit (five_slides\<lparr>sliderSize := 0\<rparr>) True = 400
   \<and> shift_revised (five_slides\<lparr>sliderSize := 0\<rparr>) 400 True = Some 400"
  by (simp add: shift_revised_def five_slides_simps position_simps)

subsection \<open>Limits and trimming\<close>

text \<open>
  C6. The maximum limit itself does not exceed the maximum limit, and a position beyond
  it by \<open>eps\<close> exceeds it exactly when \<open>eps\<close> is positive in the oriented direction, that
  is when \<open>orient eps\<close> is positive.
\<close>

theorem exceededLimit_boundary:
  "exceededLimit E S (Some True) (Some (getLimit E True)) = False
   \<and> exceededLimit E S (Some True) (Some (getLimit E True + eps)) = (0 < orient E eps)"
  by (auto simp add: exceededLimit_def orient_def)

text \<open>
  C7. Without trimming, \<^verbatim>\<open>toPosition\<close> returns the raw position
  \<open>orient (totalSize (index - 1) - offset index)\<close>. With trimming requested, the raw
  position is clamped between 0 and \<open>orient (sliderSize - listSize)\<close> when
  \<^verbatim>\<open>options.trimSpace\<close> is truthy and the slider is of type \<^verbatim>\<open>SLIDE\<close>, and the result then
  lies between these two bounds; in every other case the raw position is returned.
\<close>

theorem toPosition_trimming:
  "toPosition E index False = orient E (totalSize E (index - 1) - offset E index)
   \<and> toPosition E index True =
       (if truthy (trimSpace E) \<and> is_type E SLIDE
        then clamp (toPosition E index False) 0 (orient E (sliderSize E - listSize E))
        else toPosition E index False)
   \<and> (truthy (trimSpace E) \<and> is_type E SLIDE \<longrightarrow>
        min 0 (orient E (sliderSize E - listSize E)) \<le> toPosition E index True
        \<and> toPosition E index True \<le> max 0 (orient E (sliderSize E - listSize E)))"
  by (simp add: toPosition_def trim_def Let_def clamp_between)

text \<open>
  C7, witness: slide 4 of the five trimmed slides has the raw position 400 and is
  clamped to 200; without the trimming option it stays at 400.
\<close>

theorem toPosition_trimming_witness:
  "truthy (trimSpace trimmed_slides) \<and> is_type trimmed_slides SLIDE
   \<and> toPosition trimmed_slides 4 False = 400
   \<and> toPosition trimmed_slides 4 True = 200
   \<and> toPosition five_slides 4 True = 400"
  using toPosition_trimming [of trimmed_slides 4] toPosition_trimming [of five_slides 4]
  by (simp add: five_slides_simps position_simps)

text \<open>
  C9, as amended. Five slides of width 100, no gap, type \<^verbatim>\<open>SLIDE\<close>, trimming
  disabled, focus 0 and \<^verbatim>\<open>getEnd()\<close> 4: \<^verbatim>\<open>toPosition(0)\<close> is 0, and \<^verbatim>\<open>toPosition(4)\<close> and
  \<^verbatim>\<open>getLimit(true)\<close> are both \<open>orient 400\<close>, which is 400 under the orientation that
  keeps the sign and \<open>- 400\<close> under the one that flips it.
\<close>

theorem five_slides_positions:
  "toPosition (five_slides\<lparr>negating := n\<rparr>) 0 False = 0
   \<and> toPosition (five_slides\<lparr>negating := n\<rparr>) 4 False = orient (five_slides\<lparr>negating := n\<rparr>) 400
   \<and> getLimit (five_slides\<lparr>negating := n\<rparr>) True = orient (five_slides\<lparr>negating := n\<rparr>) 400
   \<and> orient (five_slides\<lparr>negating := n\<rparr>) 400 = (if n then - 400 else 400)"
  by (simp add: five_slides_simps position_simps)

text \<open>
  C9, counterexample to the claim as stated: under the orientation that flips the sign,
  the same five slides give \<open>- 400\<close> for \<^verbatim>\<open>toPosition(4)\<close> and for \<^verbatim>\<open>getLimit(true)\<close>.
\<close>

theorem five_slides_positions_counterexample:
  "toPosition flipped_slides 4 False = - 400 \<and> getLimit flipped_slides True = - 400"
  by (simp add: five_slides_simps position_simps)

subsection \<open>Looping and translating\<close>

text \<open>
  C10. In both designs, \<^verbatim>\<open>loop\<close> returns the current position unchanged, whatever the
  slider type, the limits and the \<^verbatim>\<open>waiting\<close> flag: the directional difference is zero,
  so neither limit counts as exceeded.
\<close>

theorem loop_current_position:
  "loop_earlier E S (getPosition E S) = Some (getPosition E S)
   \<and> loop_revised E S (getPosition E S) = Some (getPosition E S)"
  by (simp add: loop_earlier_def loop_revised_def orient_def)

text \<open>
  C8. In the revised design, when the slider is not of type \<^verbatim>\<open>FADE\<close>, \<^verbatim>\<open>translate\<close>
  writes the position itself if \<^verbatim>\<open>preventLoop\<close> is set and \<^verbatim>\<open>loop(position)\<close> otherwise,
  on the resolved axis and 0 on the other one, and it emits the \<^verbatim>\<open>shifted\<close> notification
  exactly when what it wrote differs from the position; nothing else is emitted.
\<close>

theorem translate_revised_destination:
  assumes "\<not> is_type E FADE"
  shows "let destination = (if preventLoop then Some position else loop_revised E S position);
             S' = translate_revised E S position preventLoop
         in transform S' =
              Some (if resolve_X E = ''Y'' then Some 0 else destination,
                    if resolve_X E = ''X'' then Some 0 else destination)
          \<and> trace S' =
              trace S @ (if destination \<noteq> Some position then [Emit EVENT_SHIFTED []] else [])"
  using assms by (auto simp add: translate_revised_def emit_def Let_def)

text \<open>
  C8, witness: the five slides in loop mode, the list at 380. The position 900 lies
  beyond the maximum limit 400 in the direction of the move and is wrapped to 400, which
  is written and announced; with \<^verbatim>\<open>preventLoop\<close> the position 900 is written and nothing
  is announced.
\<close>

theorem translate_revised_destination_witness:
  "\<not> is_type looping_slides FADE
   \<and> loop_revised looping_slides (initial\<lparr>rect_list := 380\<rparr>) 900 = Some 400
   \<and> transform (translate_revised looping_slides (initial\<lparr>rect_list := 380\<rparr>) 900 False)
       = Some (Some 400, Some 0)
   \<and> trace (translate_revised looping_slides (initial\<lparr>rect_list := 380\<rparr>) 900 False)
       = [Emit EVENT_SHIFTED []]
   \<and> transform (translate_revised looping_slides (initial\<lparr>rect_list := 380\<rparr>) 900 True)
       = Some (Some 900, Some 0)
   \<and> trace (translate_revised looping_slides (initial\<lparr>rect_list := 380\<rparr>) 900 True) = []"
proof -
  have h: "\<not> is_type looping_slides FADE"
    by (simp add: five_slides_simps is_type_def)
  have l: "loop_revised looping_slides (initial\<lparr>rect_list := 380\<rparr>) 900 = Some 400"
    by (simp add: loop_revised_def shift_revised_def exceededLimit_def five_slides_simps
        position_simps)
  from translate_revised_destination [OF h, of False 900 "initial\<lparr>rect_list := 380\<rparr>"]
    translate_revised_destination [OF h, of True 900 "initial\<lparr>rect_list := 380\<rparr>"] h l
  show ?thesis
    by (simp add: Let_def five_slides_simps)
qed

subsection \<open>Moving while busy\<close>

text \<open>
  C4, as amended. In the earlier design, \<^verbatim>\<open>move\<close> called while \<^verbatim>\<open>isBusy()\<close> holds, that is
  while the \<^verbatim>\<open>waiting\<close> flag is set, does nothing: the state (busy state, waiting flag,
  position) is the same, no notification is emitted and the transition driver is not
  started.
\<close>

theorem move_earlier_busy:
  assumes "isBusy S"
  shows "move_earlier E S dest index prev cb = S"
  using assms by (simp add: move_earlier_def)

text \<open>
  C4, witness: a move to the clone index 7 for the slide 2 sets the flag, and a second
  move during it changes nothing.
\<close>

theorem move_earlier_busy_witness:
  "isBusy (move_earlier five_slides initial 7 2 1 None)
   \<and> move_earlier five_slides (move_earlier five_slides initial 7 2 1 None) 3 3 2 None
       = move_earlier five_slides initial 7 2 1 None"
proof -
  have h: "isBusy (move_earlier five_slides initial 7 2 1 None)"
    by (simp add: move_earlier_def isBusy_def emit_def Let_def five_slides_simps)
  from move_earlier_busy [OF h, of five_slides 3 3 2 None] h show ?thesis by simp
qed

text \<open>
  C4, counterexample to the claim as stated. With \<^verbatim>\<open>options.waitForTransition\<close> off, a
  move whose destination is the slide itself enters \<^verbatim>\<open>MOVING\<close> and leaves the flag
  unset; a second move in that state emits its notification and starts the driver again.
\<close>

theorem move_earlier_moving_counterexample:
  "busy (move_earlier five_slides initial 1 1 0 None) = MOVING
   \<and> trace (move_earlier five_slides initial 1 1 0 None)
       = [Emit EVENT_MOVE [1, 0, 1], TransitionStart 1 (Completion False 1 0 1 0 None)]
   \<and> trace (move_earlier five_slides (move_earlier five_slides initial 1 1 0 None) 2 2 1 None)
       = [Emit EVENT_MOVE [1, 0, 1], TransitionStart 1 (Completion False 1 0 1 0 None),
          Emit EVENT_MOVE [2, 1, 2], TransitionStart 2 (Completion False 2 1 2 0 None)]"
  by (simp add: move_earlier_def isBusy_def emit_def getPosition_def orient_def Let_def
      five_slides_simps)

end
